theory Spec2Isabelle
  imports Complex_Main
begin

section \<open>Python values used by camoufox\_profile\_gui.py\<close>

text \<open>
  A Python \<open>str\<close> is a sequence of Unicode code points. The source has literals outside
  Latin-1 (the bullets of the delete prompt) and \<open>str.strip()\<close> removes Unicode white
  space, so a string is a list of code points; \<open>lit\<close> embeds an ASCII literal.
\<close>

type_synonym pystr = "nat list"

definition lit :: "string \<Rightarrow> pystr" where
  "lit s = map of_char s"

text \<open>The code points for which \<open>str.isspace\<close> holds; \<open>strip()\<close> without argument
  removes them from both ends.\<close>

definition isspace :: "nat \<Rightarrow> bool" where
  "isspace c \<longleftrightarrow>
     (9 \<le> c \<and> c \<le> 13) \<or> (28 \<le> c \<and> c \<le> 32) \<or> c = 133 \<or> c = 160 \<or> c = 5760 \<or>
     (8192 \<le> c \<and> c \<le> 8202) \<or> c = 8232 \<or> c = 8233 \<or> c = 8239 \<or> c = 8287 \<or> c = 12288"

definition strip :: "pystr \<Rightarrow> pystr" where
  "strip s = rev (dropWhile isspace (rev (dropWhile isspace s)))"

fun str_nat :: "nat \<Rightarrow> pystr" where
  "str_nat n = (if n < 10 then [48 + n] else str_nat (n div 10) @ [48 + n mod 10])"

declare str_nat.simps [simp del]

definition str_int :: "int \<Rightarrow> pystr" where
  "str_int i = (if i < 0 then 45 # str_nat (nat (- i)) else str_nat (nat i))"

text \<open>
  What \<open>tree.item(...)["values"]\<close> hands back for one cell: tkinter returns the cell text
  as a \<open>str\<close>, or as an \<open>int\<close> when the text reads as an integer.
\<close>

datatype tkval = TStr pystr | TInt int

text \<open>An f-string field between apostrophes.\<close>

definition quoted :: "pystr \<Rightarrow> pystr" where
  "quoted s = 39 # s @ [39]"

fun str_tk :: "tkval \<Rightarrow> pystr" where
  "str_tk (TStr s) = s"
| "str_tk (TInt i) = str_int i"

text \<open>The values \<open>json.loads\<close> produces. A dict is the list of its items in insertion
  order (keys distinct); floats matter only through their truth value.\<close>

datatype pyfloat = Finite real | Infinite bool | NaN

datatype json =
    JNull
  | JBool bool
  | JInt int
  | JFloat pyfloat
  | JStr pystr
  | JArr "json list"
  | JObj "(pystr \<times> json) list"

fun truthy :: "json \<Rightarrow> bool" where
  "truthy JNull = False"
| "truthy (JBool b) = b"
| "truthy (JInt i) = (i \<noteq> 0)"
| "truthy (JFloat f) = (f \<noteq> Finite 0)"
| "truthy (JStr s) = (s \<noteq> [])"
| "truthy (JArr xs) = (xs \<noteq> [])"
| "truthy (JObj d) = (d \<noteq> [])"

fun type_name :: "json \<Rightarrow> pystr" where
  "type_name JNull = lit ''NoneType''"
| "type_name (JBool b) = lit ''bool''"
| "type_name (JInt i) = lit ''int''"
| "type_name (JFloat f) = lit ''float''"
| "type_name (JStr s) = lit ''str''"
| "type_name (JArr xs) = lit ''list''"
| "type_name (JObj d) = lit ''dict''"

datatype exn = KeyError pystr | TypeError pystr | AttributeError pystr

text \<open>\<open>for profile in profiles\<close>: a list yields its elements, a dict its keys, a string
  its characters; anything else is not iterable.\<close>

fun iter_py :: "json \<Rightarrow> exn + json list" where
  "iter_py (JArr xs) = Inr xs"
| "iter_py (JObj d) = Inr (map (\<lambda>kv. JStr (fst kv)) d)"
| "iter_py (JStr s) = Inr (map (\<lambda>c. JStr [c]) s)"
| "iter_py v = Inl (TypeError (quoted (type_name v) @ lit '' object is not iterable''))"

section \<open>The window, the tool and the user\<close>

record row =
  col_id :: json
  col_name :: json
  col_storage_path :: json
  col_proxy :: pystr

record profile =
  p_id :: tkval
  p_name :: tkval
  p_storage_path :: tkval
  p_proxy :: tkval

text \<open>Everything the program shows or starts, in the order it happens: message boxes,
  the delete prompt, child processes and the worker thread of \<open>open_profile\<close>.\<close>

datatype event =
    ShowInfo pystr pystr
  | ShowError pystr pystr
  | ShowWarning pystr pystr
  | AskYesNoCancel pystr pystr
  | SubprocessRun "pystr list"
  | ThreadStart profile

record world =
  table :: "row list"
  status :: pystr
  trace :: "event list"

datatype run_result = Completed int pystr pystr | RunRaised pystr

text \<open>
  The surroundings of the program: the two paths computed in \<open>__init__\<close>, the outcome of
  \<open>subprocess.run\<close> (exit code, stdout and stderr, or the text of the exception it
  raised) as a function of the argument vector and of the vectors run before it, and
  \<open>json.loads\<close> (\<open>Inl\<close> carries the text of the \<open>JSONDecodeError\<close>).
\<close>

record host =
  python_path :: pystr
  script_path :: pystr
  subprocess_run :: "pystr list list \<Rightarrow> pystr list \<Rightarrow> run_result"
  json_loads :: "pystr \<Rightarrow> pystr + json"

fun spawned :: "event list \<Rightarrow> pystr list list" where
  "spawned [] = []"
| "spawned (SubprocessRun c # es) = c # spawned es"
| "spawned (e # es) = spawned es"

definition set_status :: "pystr \<Rightarrow> world \<Rightarrow> world" where
  "set_status message w = w\<lparr>status := message\<rparr>"

definition emit :: "event \<Rightarrow> world \<Rightarrow> world" where
  "emit e w = w\<lparr>trace := trace w @ [e]\<rparr>"

section \<open>run\_command\<close>

fun join_sp :: "pystr list \<Rightarrow> pystr" where
  "join_sp [] = []"
| "join_sp [s] = s"
| "join_sp (s # ss) = s @ 32 # join_sp ss"

text \<open>\<open>' '.join(cmd)\<close> raises \<open>TypeError\<close> at the first item that is not a \<open>str\<close>.\<close>

fun cmd_strs :: "nat \<Rightarrow> tkval list \<Rightarrow> pystr + pystr list" where
  "cmd_strs i [] = Inr []"
| "cmd_strs i (TStr s # vs) =
     (case cmd_strs (Suc i) vs of Inl m \<Rightarrow> Inl m | Inr ss \<Rightarrow> Inr (s # ss))"
| "cmd_strs i (TInt n # vs) =
     Inl (lit ''sequence item '' @ str_nat i @ lit '': expected str instance, int found'')"

definition run_command :: "host \<Rightarrow> tkval list \<Rightarrow> bool \<Rightarrow> world \<Rightarrow> pystr option \<times> world" where
  "run_command h cmd show_output w =
     (case cmd_strs 0 cmd of
        Inl m \<Rightarrow>
          (None, set_status (lit ''Ready'')
                   (emit (ShowError (lit ''Error'') (lit ''Failed to run command: '' @ m)) w))
      | Inr args \<Rightarrow>
          (let w1 = set_status (lit ''Running: '' @ join_sp args) w;
               w2 = emit (SubprocessRun args) w1
           in case subprocess_run h (spawned (trace w1)) args of
                RunRaised m \<Rightarrow>
                  (None, set_status (lit ''Ready'')
                           (emit (ShowError (lit ''Error'') (lit ''Failed to run command: '' @ m)) w2))
              | Completed returncode out err \<Rightarrow>
                  if returncode = 0 then
                    (Some out, set_status (lit ''Ready'')
                       (if show_output \<and> strip out \<noteq> []
                        then emit (ShowInfo (lit ''Command Output'') out) w2 else w2))
                  else
                    (let error_msg = (if strip err \<noteq> [] then strip err else strip out)
                     in (None, set_status (lit ''Ready'')
                                 (emit (ShowError (lit ''Error'')
                                    (lit ''Command failed:'' @ 10 # error_msg)) w2)))))"

section \<open>refresh\_profiles\<close>

definition dict_get :: "(pystr \<times> json) list \<Rightarrow> pystr \<Rightarrow> json option" where
  "dict_get d k = map_of d k"

text \<open>One turn of the loop of \<open>refresh_profiles\<close>. \<open>profile_row\<close> evaluates the proxy
  status and the tuple passed to \<open>tree.insert\<close>, which reads \<open>id\<close>, \<open>name\<close> and
  \<open>storage_path\<close> in this order; a missing key raises \<open>KeyError\<close> before anything is
  inserted. \<open>profile.get\<close> exists on a dict only.\<close>

definition profile_row :: "(pystr \<times> json) list \<Rightarrow> exn + row" where
  "profile_row d =
     (let proxy_status =
            (if (case dict_get d (lit ''proxy_host'') of None \<Rightarrow> False | Some v \<Rightarrow> truthy v)
             then lit ''yes'' else lit ''no'')
      in case dict_get d (lit ''id'') of
           None \<Rightarrow> Inl (KeyError (lit ''id''))
         | Some i \<Rightarrow>
             (case dict_get d (lit ''name'') of
                None \<Rightarrow> Inl (KeyError (lit ''name''))
              | Some n \<Rightarrow>
                  (case dict_get d (lit ''storage_path'') of
                     None \<Rightarrow> Inl (KeyError (lit ''storage_path''))
                   | Some sp \<Rightarrow>
                       Inr \<lparr>col_id = i, col_name = n, col_storage_path = sp,
                            col_proxy = proxy_status\<rparr>)))"

fun insert_profile :: "json \<Rightarrow> world \<Rightarrow> exn option \<times> world" where
  "insert_profile (JObj d) w =
     (case profile_row d of
        Inl e \<Rightarrow> (Some e, w)
      | Inr r \<Rightarrow> (None, w\<lparr>table := table w @ [r]\<rparr>))"
| "insert_profile v w =
     (Some (AttributeError
        (quoted (type_name v) @ lit '' object has no attribute '' @ quoted (lit ''get''))), w)"

fun insert_profiles :: "json list \<Rightarrow> world \<Rightarrow> exn option \<times> world" where
  "insert_profiles [] w = (None, w)"
| "insert_profiles (p # ps) w =
     (case insert_profile p w of
        (Some e, w') \<Rightarrow> (Some e, w')
      | (None, w') \<Rightarrow> insert_profiles ps w')"

definition list_cmd :: "host \<Rightarrow> tkval list" where
  "list_cmd h =
     [TStr (python_path h), TStr (script_path h), TStr (lit ''list''), TStr (lit ''--json'')]"

text \<open>The result is the exception that leaves \<open>refresh_profiles\<close>, if any: only
  \<open>JSONDecodeError\<close> is handled there.\<close>

definition refresh_profiles :: "host \<Rightarrow> world \<Rightarrow> exn option \<times> world" where
  "refresh_profiles h w =
     (let w1 = set_status (lit ''Refreshing profiles...'') w;
          w2 = w1\<lparr>table := []\<rparr>
      in case run_command h (list_cmd h) False w2 of
           (None, w3) \<Rightarrow> (None, w3)
         | (Some output, w3) \<Rightarrow>
             if output = [] then (None, w3)
             else
               (case json_loads h output of
                  Inl m \<Rightarrow>
                    (None, set_status (lit ''Error loading profiles'')
                             (emit (ShowError (lit ''Error'')
                                (lit ''Failed to parse profiles: '' @ m)) w3))
                | Inr profiles \<Rightarrow>
                    (case iter_py profiles of
                       Inl e \<Rightarrow> (Some e, w3)
                     | Inr items \<Rightarrow>
                         (case insert_profiles items w3 of
                            (Some e, w4) \<Rightarrow> (Some e, w4)
                          | (None, w4) \<Rightarrow>
                              (None, set_status
                                 (lit ''Loaded '' @ str_nat (length items) @ lit '' profiles'')
                                 w4)))))"

section \<open>Selection and the profile dialog\<close>

text \<open>The argument \<open>sel\<close> is what the tree widget answers: nothing selected, or the four
  cell values of the first selected row.\<close>

fun selected_profile :: "tkval \<times> tkval \<times> tkval \<times> tkval \<Rightarrow> profile" where
  "selected_profile (v0, v1, v2, v3) =
     \<lparr>p_id = v0, p_name = v1, p_storage_path = v2, p_proxy = v3\<rparr>"

definition get_selected_profile ::
  "(tkval \<times> tkval \<times> tkval \<times> tkval) option \<Rightarrow> world \<Rightarrow> profile option \<times> world" where
  "get_selected_profile sel w =
     (case sel of
        None \<Rightarrow>
          (None, emit (ShowWarning (lit ''No Selection'') (lit ''Please select a profile first.'')) w)
      | Some vs \<Rightarrow> (Some (selected_profile vs), w))"

record dlg_result =
  r_name :: pystr
  r_storage_path :: pystr
  r_proxy :: pystr

record dialog =
  title :: pystr
  name_var :: pystr
  storage_var :: pystr
  proxy_var :: pystr
  result :: "dlg_result option"
  destroyed :: bool

text \<open>\<open>initial_data.get(key, "")\<close> on \<open>initial_data or {}\<close>, read into a \<open>StringVar\<close>.\<close>

definition initial_get :: "(pystr \<times> tkval) list option \<Rightarrow> pystr \<Rightarrow> pystr" where
  "initial_get initial_data k =
     (case map_of (case initial_data of None \<Rightarrow> [] | Some d \<Rightarrow> d) k of
        None \<Rightarrow> []
      | Some v \<Rightarrow> str_tk v)"

definition setup_dialog :: "pystr \<Rightarrow> (pystr \<times> tkval) list option \<Rightarrow> dialog" where
  "setup_dialog ttl initial_data =
     \<lparr>title = ttl,
      name_var = initial_get initial_data (lit ''name''),
      storage_var = initial_get initial_data (lit ''storage_path''),
      proxy_var = initial_get initial_data (lit ''proxy''),
      result = None,
      destroyed = False\<rparr>"

definition ok_clicked :: "dialog \<Rightarrow> world \<Rightarrow> dialog \<times> world" where
  "ok_clicked d w =
     (let name = strip (name_var d)
      in if name = [] then
           (d, emit (ShowError (lit ''Error'') (lit ''Profile name is required!'')) w)
         else
           (d\<lparr>result := Some \<lparr>r_name = name,
                               r_storage_path = strip (storage_var d),
                               r_proxy = strip (proxy_var d)\<rparr>,
              destroyed := True\<rparr>, w))"

definition cancel_clicked :: "dialog \<Rightarrow> world \<Rightarrow> dialog \<times> world" where
  "cancel_clicked d w = (d\<lparr>destroyed := True\<rparr>, w)"

text \<open>
  What the user does while \<open>wait_window\<close> blocks: typing into the three entries, OK (the
  button or the Return key) and Cancel (the button or the Escape key). A script that
  ends with the dialog still open stands for closing the window from the window manager,
  which destroys it without a result.
\<close>

datatype user_action =
    EnterName pystr
  | EnterStorage pystr
  | EnterProxy pystr
  | ClickOk
  | ClickCancel

fun wait_window :: "user_action list \<Rightarrow> dialog \<Rightarrow> world \<Rightarrow> dialog \<times> world" where
  "wait_window [] d w = (d\<lparr>destroyed := True\<rparr>, w)"
| "wait_window (a # as) d w =
     (if destroyed d then (d, w)
      else case a of
             EnterName s \<Rightarrow> wait_window as (d\<lparr>name_var := s\<rparr>) w
           | EnterStorage s \<Rightarrow> wait_window as (d\<lparr>storage_var := s\<rparr>) w
           | EnterProxy s \<Rightarrow> wait_window as (d\<lparr>proxy_var := s\<rparr>) w
           | ClickOk \<Rightarrow> (case ok_clicked d w of (d', w') \<Rightarrow> wait_window as d' w')
           | ClickCancel \<Rightarrow> (case cancel_clicked d w of (d', w') \<Rightarrow> wait_window as d' w'))"

definition ProfileDialog ::
  "pystr \<Rightarrow> (pystr \<times> tkval) list option \<Rightarrow> user_action list \<Rightarrow> world \<Rightarrow> dialog \<times> world" where
  "ProfileDialog ttl initial_data script w = wait_window script (setup_dialog ttl initial_data) w"

section \<open>The four actions\<close>

definition out_truthy :: "pystr option \<Rightarrow> bool" where
  "out_truthy out = (case out of None \<Rightarrow> False | Some s \<Rightarrow> s \<noteq> [])"

definition create_cmd :: "host \<Rightarrow> dlg_result \<Rightarrow> tkval list" where
  "create_cmd h r =
     [TStr (python_path h), TStr (script_path h), TStr (lit ''create''), TStr (r_name r)]
     @ (if r_proxy r \<noteq> [] then [TStr (lit ''--proxy''), TStr (r_proxy r)] else [])
     @ (if r_storage_path r \<noteq> []
        then [TStr (lit ''--storage-path''), TStr (r_storage_path r)] else [])"

definition create_profile :: "host \<Rightarrow> user_action list \<Rightarrow> world \<Rightarrow> exn option \<times> world" where
  "create_profile h script w =
     (case ProfileDialog (lit ''Create New Profile'') None script w of
        (dlg, w1) \<Rightarrow>
          (case result dlg of
             None \<Rightarrow> (None, w1)
           | Some r \<Rightarrow>
               (case run_command h (create_cmd h r) False w1 of
                  (out, w2) \<Rightarrow>
                    if out_truthy out then
                      refresh_profiles h
                        (emit (ShowInfo (lit ''Success'')
                           (lit ''Profile '' @ quoted (r_name r) @ lit '' created successfully!''))
                           w2)
                    else (None, w2))))"

definition edit_initial_data :: "profile \<Rightarrow> (pystr \<times> tkval) list" where
  "edit_initial_data p =
     [(lit ''name'', p_name p),
      (lit ''storage_path'',
         if p_storage_path p \<noteq> TStr (lit ''default'') then p_storage_path p else TStr []),
      (lit ''proxy'', TStr [])]"

definition edit_cmd :: "host \<Rightarrow> profile \<Rightarrow> dlg_result \<Rightarrow> tkval list" where
  "edit_cmd h p r =
     [TStr (python_path h), TStr (script_path h), TStr (lit ''edit''), p_id p]
     @ (if r_name r \<noteq> [] then [TStr (lit ''--name''), TStr (r_name r)] else [])
     @ (if r_proxy r \<noteq> [] then [TStr (lit ''--proxy''), TStr (r_proxy r)] else [])
     @ (if r_storage_path r \<noteq> []
        then [TStr (lit ''--storage-path''), TStr (r_storage_path r)] else [])"

definition edit_profile ::
  "host \<Rightarrow> (tkval \<times> tkval \<times> tkval \<times> tkval) option \<Rightarrow> user_action list \<Rightarrow> world
     \<Rightarrow> exn option \<times> world" where
  "edit_profile h sel script w =
     (case get_selected_profile sel w of
        (None, w0) \<Rightarrow> (None, w0)
      | (Some p, w0) \<Rightarrow>
          (case ProfileDialog (lit ''Edit Profile'') (Some (edit_initial_data p)) script w0 of
             (dlg, w1) \<Rightarrow>
               (case result dlg of
                  None \<Rightarrow> (None, w1)
                | Some r \<Rightarrow>
                    (case run_command h (edit_cmd h p r) False w1 of
                       (out, w2) \<Rightarrow>
                         if out_truthy out then
                           refresh_profiles h
                             (emit (ShowInfo (lit ''Success'')
                                (lit ''Profile '' @ quoted (str_tk (p_name p))
                                   @ lit '' updated successfully!'')) w2)
                         else (None, w2)))))"

definition delete_prompt :: "profile \<Rightarrow> pystr" where
  "delete_prompt p =
     lit ''Delete profile '' @ quoted (str_tk (p_name p)) @ lit ''?'' @ [10, 10]
     @ lit ''Choose:'' @ [10]
     @ 8226 # lit '' Yes: Delete profile and remove storage directory'' @ [10]
     @ 8226 # lit '' No: Delete profile but keep storage directory'' @ [10]
     @ 8226 # lit '' Cancel: Don'' @ 39 # lit ''t delete anything''"

definition delete_cmd :: "host \<Rightarrow> profile \<Rightarrow> bool \<Rightarrow> tkval list" where
  "delete_cmd h p response =
     [TStr (python_path h), TStr (script_path h), TStr (lit ''delete''), p_id p]
     @ (if response then [TStr (lit ''--remove-storage'')] else [])"

text \<open>\<open>response\<close> is the answer to \<open>askyesnocancel\<close>: Yes, No, or \<open>None\<close> for Cancel.\<close>

definition delete_profile ::
  "host \<Rightarrow> (tkval \<times> tkval \<times> tkval \<times> tkval) option \<Rightarrow> bool option \<Rightarrow> world
     \<Rightarrow> exn option \<times> world" where
  "delete_profile h sel response w =
     (case get_selected_profile sel w of
        (None, w0) \<Rightarrow> (None, w0)
      | (Some p, w0) \<Rightarrow>
          (let w1 = emit (AskYesNoCancel (lit ''Confirm Deletion'') (delete_prompt p)) w0
           in case response of
                None \<Rightarrow> (None, w1)
              | Some yes \<Rightarrow>
                  (case run_command h (delete_cmd h p yes) False w1 of
                     (out, w2) \<Rightarrow>
                       if out_truthy out then
                         (let action = (if yes then lit ''and storage directory''
                                        else lit ''but kept storage directory'')
                          in refresh_profiles h
                               (emit (ShowInfo (lit ''Success'')
                                  (lit ''Profile '' @ quoted (str_tk (p_name p))
                                     @ lit '' deleted '' @ action @ lit ''!'')) w2))
                       else (None, w2))))"

text \<open>
  \<open>open_profile\<close> starts a daemon thread whose target is \<open>run_open\<close> and goes on to its
  message box; nothing joins the thread. \<open>run_open\<close> is the body of the worker, which
  runs on whatever the world is when the thread is scheduled; it drops the value
  \<open>run_command\<close> returns.
\<close>

definition open_cmd :: "host \<Rightarrow> profile \<Rightarrow> tkval list" where
  "open_cmd h p = [TStr (python_path h), TStr (script_path h), TStr (lit ''open''), p_id p]"

definition run_open :: "host \<Rightarrow> profile \<Rightarrow> world \<Rightarrow> world" where
  "run_open h p w = snd (run_command h (open_cmd h p) True w)"

definition open_profile ::
  "(tkval \<times> tkval \<times> tkval \<times> tkval) option \<Rightarrow> world \<Rightarrow> world" where
  "open_profile sel w =
     (case get_selected_profile sel w of
        (None, w0) \<Rightarrow> w0
      | (Some p, w0) \<Rightarrow>
          emit (ShowInfo (lit ''Opening Profile'')
                  (lit ''Opening profile '' @ quoted (str_tk (p_name p))
                     @ lit '' for manual login...''))
            (emit (ThreadStart p) w0))"

section \<open>Vocabulary of the properties\<close>

text \<open>The argument vector of the list operation, as strings.\<close>

definition list_args :: "host \<Rightarrow> pystr list" where
  "list_args h = [python_path h, script_path h, lit ''list'', lit ''--json'']"

text \<open>A parsed profile object has the three keys the table reads.\<close>

definition has_keys :: "(pystr \<times> json) list \<Rightarrow> bool" where
  "has_keys d \<longleftrightarrow>
     dict_get d (lit ''id'') \<noteq> None \<and> dict_get d (lit ''name'') \<noteq> None \<and>
     dict_get d (lit ''storage_path'') \<noteq> None"

text \<open>The child process for \<open>cmd\<close>, started after the runs \<open>hist\<close>, exits with a nonzero
  code.\<close>

definition exits_nonzero :: "host \<Rightarrow> pystr list list \<Rightarrow> tkval list \<Rightarrow> bool" where
  "exits_nonzero h hist cmd =
     (case cmd_strs 0 cmd of
        Inl m \<Rightarrow> False
      | Inr args \<Rightarrow>
          (case subprocess_run h hist args of
             Completed returncode out err \<Rightarrow> returncode \<noteq> 0
           | RunRaised m \<Rightarrow> False))"

text \<open>Concrete surroundings for the examples: a tool that always gives the same outcome
  and a parser that always gives the same answer, an empty window, a window showing one
  profile, and the cells of that row as the tree hands them back.\<close>

definition demo_host :: "run_result \<Rightarrow> pystr + json \<Rightarrow> host" where
  "demo_host r j =
     \<lparr>python_path = lit ''.venv/bin/python'',
      script_path = lit ''scripts/manage_camoufox_profiles.py'',
      subprocess_run = (\<lambda>hist args. r),
      json_loads = (\<lambda>s. j)\<rparr>"

definition world0 :: world where
  "world0 = \<lparr>table = [], status = lit ''Ready'', trace = []\<rparr>"

definition world1 :: world where
  "world1 =
     \<lparr>table = [\<lparr>col_id = JStr (lit ''p1''), col_name = JStr (lit ''A''),
                 col_storage_path = JStr (lit ''default''), col_proxy = lit ''yes''\<rparr>],
      status = lit ''Loaded 1 profiles'', trace = []\<rparr>"

definition cells1 :: "tkval \<times> tkval \<times> tkval \<times> tkval" where
  "cells1 = (TStr (lit ''p1''), TStr (lit ''A''), TStr (lit ''default''), TStr (lit ''yes''))"

definition profile1 :: "(pystr \<times> json) list" where
  "profile1 =
     [(lit ''id'', JStr (lit ''p1'')), (lit ''name'', JStr (lit ''A'')),
      (lit ''storage_path'', JStr (lit ''default'')), (lit ''proxy_host'', JStr (lit ''1.2.3.4''))]"

definition profile2 :: "(pystr \<times> json) list" where
  "profile2 = [(lit ''id'', JStr (lit ''p2'')), (lit ''storage_path'', JStr (lit ''default''))]"

definition list_output1 :: pystr where
  \<open>list_output1 =
     lit ''[{"id":"p1","name":"A","storage_path":"default","proxy_host":"1.2.3.4"}]''\<close>

definition tool_fails :: host where
  "tool_fails = demo_host (Completed 1 [] (lit ''profile store is locked'')) (Inl [])"

definition tool_opens :: host where
  "tool_opens = demo_host (Completed 0 (lit ''Profile opened'') []) (Inl [])"

section \<open>Auxiliary facts\<close>

lemma cmd_strs_TStr: "cmd_strs i (map TStr args) = Inr args"
  by (induction args arbitrary: i) auto

lemma spawned_append: "spawned (xs @ ys) = spawned xs @ spawned ys"
  by (induction xs rule: spawned.induct) auto

lemma list_cmd_strs: "list_cmd h = map TStr (list_args h)"
  by (simp add: list_cmd_def list_args_def)

lemma run_command_table: "table (snd (run_command h cmd so w)) = table w"
  by (simp add: run_command_def set_status_def emit_def Let_def split: sum.splits run_result.splits)

lemma run_command_trace: "\<exists>es. trace (snd (run_command h cmd so w)) = trace w @ es"
  by (simp add: run_command_def set_status_def emit_def Let_def split: sum.splits run_result.splits)

lemma run_list_ok:
  assumes "subprocess_run h (spawned (trace w)) (list_args h) = Completed 0 out err"
  shows "\<exists>w3. run_command h (list_cmd h) False
                 ((set_status (lit ''Refreshing profiles...'') w)\<lparr>table := []\<rparr>) = (Some out, w3) \<and>
              table w3 = [] \<and> status w3 = lit ''Ready'' \<and>
              trace w3 = trace w @ [SubprocessRun (list_args h)]"
  using assms
  by (simp add: run_command_def list_cmd_strs cmd_strs_TStr set_status_def emit_def Let_def)

lemma refresh_after_list:
  assumes "run_command h (list_cmd h) False
             ((set_status (lit ''Refreshing profiles...'') w)\<lparr>table := []\<rparr>) = (Some out, w3)"
    and "out \<noteq> []"
  shows "refresh_profiles h w =
     (case json_loads h out of
        Inl m \<Rightarrow>
          (None, set_status (lit ''Error loading profiles'')
                   (emit (ShowError (lit ''Error'') (lit ''Failed to parse profiles: '' @ m)) w3))
      | Inr profiles \<Rightarrow>
          (case iter_py profiles of
             Inl e \<Rightarrow> (Some e, w3)
           | Inr items \<Rightarrow>
               (case insert_profiles items w3 of
                  (Some e, w4) \<Rightarrow> (Some e, w4)
                | (None, w4) \<Rightarrow>
                    (None, set_status
                       (lit ''Loaded '' @ str_nat (length items) @ lit '' profiles'') w4))))"
  using assms by (simp add: refresh_profiles_def Let_def)

lemma has_keys_row: "has_keys d \<Longrightarrow> \<exists>r. profile_row d = Inr r"
  by (auto simp: has_keys_def profile_row_def Let_def)

lemma no_keys_row:
  "\<not> has_keys d \<Longrightarrow>
   \<exists>k. k \<in> {lit ''id'', lit ''name'', lit ''storage_path''} \<and> dict_get d k = None \<and>
       profile_row d = Inl (KeyError k)"
  by (auto simp: has_keys_def profile_row_def Let_def split: option.splits)

lemma insert_profiles_rows:
  "map profile_row ds = map Inr rows \<Longrightarrow>
   insert_profiles (map JObj ds) w = (None, w\<lparr>table := table w @ rows\<rparr>)"
proof (induction ds arbitrary: rows w)
  case Nil
  then show ?case by simp
next
  case (Cons d ds)
  then obtain r rs where rows: "rows = r # rs" "profile_row d = Inr r" "map profile_row ds = map Inr rs"
    by (cases rows) auto
  show ?case using Cons.IH[OF rows(3)] rows by simp
qed

lemma insert_profiles_stop:
  "map profile_row pre = map Inr rows \<Longrightarrow> profile_row d = Inl e \<Longrightarrow>
   insert_profiles (map JObj pre @ JObj d # post) w = (Some e, w\<lparr>table := table w @ rows\<rparr>)"
proof (induction pre arbitrary: rows w)
  case Nil
  then show ?case by simp
next
  case (Cons p pre)
  then obtain r rs where rows: "rows = r # rs" "profile_row p = Inr r" "map profile_row pre = map Inr rs"
    by (cases rows) auto
  show ?case using Cons.IH[OF rows(3) Cons.prems(2)] rows by simp
qed

lemma all_has_keys_rows: "list_all has_keys ds \<Longrightarrow> \<exists>rows. map profile_row ds = map Inr rows"
proof (induction ds)
  case Nil
  then show ?case by simp
next
  case (Cons d ds)
  then obtain rows where "map profile_row ds = map Inr rows" by auto
  moreover obtain r where "profile_row d = Inr r" using Cons.prems has_keys_row by auto
  ultimately have "map profile_row (d # ds) = map Inr (r # rows)" by simp
  then show ?case by blast
qed

lemma has_keys_row_cols:
  assumes "profile_row d = Inr r"
  shows "col_proxy r = (if (\<exists>v. dict_get d (lit ''proxy_host'') = Some v \<and> truthy v)
                        then lit ''yes'' else lit ''no'')"
    and "dict_get d (lit ''id'') = Some (col_id r)"
    and "dict_get d (lit ''name'') = Some (col_name r)"
    and "dict_get d (lit ''storage_path'') = Some (col_storage_path r)"
  using assms by (auto simp: profile_row_def Let_def split: option.splits)

lemma insert_profiles_trace: "trace (snd (insert_profiles xs w)) = trace w"
proof (induction xs arbitrary: w)
  case Nil
  then show ?case by simp
next
  case (Cons x xs)
  show ?case
  proof (cases x)
    case (JObj d)
    then show ?thesis using Cons.IH by (cases "profile_row d") simp_all
  qed simp_all
qed

lemma refresh_profiles_trace: "\<exists>es. trace (snd (refresh_profiles h w)) = trace w @ es"
proof -
  let ?w2 = "(set_status (lit ''Refreshing profiles...'') w)\<lparr>table := []\<rparr>"
  obtain o3 w3 where r: "run_command h (list_cmd h) False ?w2 = (o3, w3)"
    by (cases "run_command h (list_cmd h) False ?w2")
  obtain es where es: "trace w3 = trace w @ es"
    using run_command_trace[of h "list_cmd h" False ?w2] r by (auto simp: set_status_def)
  have i: "trace (snd (insert_profiles xs w3)) = trace w @ es" for xs
    using insert_profiles_trace[of xs w3] es by simp
  show ?thesis
  proof (cases o3)
    case None
    then show ?thesis using r es by (simp add: refresh_profiles_def Let_def)
  next
    case (Some out)
    show ?thesis
    proof (cases "out = []")
      case True
      then show ?thesis using r es Some by (simp add: refresh_profiles_def Let_def)
    next
      case False
      have eq: "run_command h (list_cmd h) False ?w2 = (Some out, w3)" using r Some by simp
      note unf = refresh_after_list[OF eq False]
      show ?thesis
      proof (cases "json_loads h out")
        case (Inl m)
        then show ?thesis using es by (simp add: unf set_status_def emit_def)
      next
        case (Inr profiles)
        show ?thesis
        proof (cases "iter_py profiles")
          case (Inl e)
          then show ?thesis using Inr es by (simp add: unf)
        next
          case items: (Inr items)
          obtain e4 w4 where ip: "insert_profiles items w3 = (e4, w4)"
            by (cases "insert_profiles items w3")
          then have "trace w4 = trace w @ es" using i[of items] by simp
          then show ?thesis using Inr items ip by (cases e4) (simp_all add: unf set_status_def)
        qed
      qed
    qed
  qed
qed

lemma wait_window_keeps:
  "wait_window script d w = (d', w') \<Longrightarrow>
   table w' = table w \<and> status w' = status w \<and> spawned (trace w') = spawned (trace w)"
proof (induction script arbitrary: d w)
  case Nil
  then show ?case by auto
next
  case (Cons a as)
  show ?case
  proof (cases "destroyed d")
    case True
    then show ?thesis using Cons.prems by auto
  next
    case False
    show ?thesis
    proof (cases a)
      case (EnterName s)
      then show ?thesis using Cons.prems False Cons.IH[of "d\<lparr>name_var := s\<rparr>" w] by simp
    next
      case (EnterStorage s)
      then show ?thesis using Cons.prems False Cons.IH[of "d\<lparr>storage_var := s\<rparr>" w] by simp
    next
      case (EnterProxy s)
      then show ?thesis using Cons.prems False Cons.IH[of "d\<lparr>proxy_var := s\<rparr>" w] by simp
    next
      case ClickOk
      obtain d1 w1 where ok: "ok_clicked d w = (d1, w1)" by (cases "ok_clicked d w")
      then have k: "table w1 = table w \<and> status w1 = status w \<and> spawned (trace w1) = spawned (trace w)"
        by (auto simp: ok_clicked_def emit_def spawned_append Let_def split: if_splits)
      have "wait_window as d1 w1 = (d', w')" using Cons.prems False ClickOk ok by simp
      from Cons.IH[OF this] k show ?thesis by simp
    next
      case ClickCancel
      have "wait_window as (d\<lparr>destroyed := True\<rparr>) w = (d', w')"
        using Cons.prems False ClickCancel by (simp add: cancel_clicked_def)
      from Cons.IH[OF this] show ?thesis by simp
    qed
  qed
qed

lemma run_command_nonzero:
  assumes "exits_nonzero h (spawned (trace w)) cmd"
  shows "\<exists>args msg w'. cmd_strs 0 cmd = Inr args \<and> run_command h cmd so w = (None, w') \<and>
           table w' = table w \<and> status w' = lit ''Ready'' \<and>
           trace w' = trace w @ [SubprocessRun args, ShowError (lit ''Error'') msg]"
  using assms
  by (auto simp: exits_nonzero_def run_command_def set_status_def emit_def Let_def
      split: sum.splits run_result.splits)

lemma create_failed:
  assumes "ProfileDialog (lit ''Create New Profile'') None script w = (dlg, w1)"
    and "result dlg = Some r"
    and "exits_nonzero h (spawned (trace w)) (create_cmd h r)"
  shows "\<exists>args msg w'. create_profile h script w = (None, w') \<and> table w' = table w \<and>
           cmd_strs 0 (create_cmd h r) = Inr args \<and>
           trace w' = trace w1 @ [SubprocessRun args, ShowError (lit ''Error'') msg] \<and>
           spawned (trace w') = spawned (trace w) @ [args]"
proof -
  have k: "table w1 = table w" "spawned (trace w1) = spawned (trace w)"
    using wait_window_keeps[of script _ w dlg w1] assms(1) by (simp_all add: ProfileDialog_def)
  obtain args msg w' where r: "cmd_strs 0 (create_cmd h r) = Inr args"
      "run_command h (create_cmd h r) False w1 = (None, w')" "table w' = table w1"
      "trace w' = trace w1 @ [SubprocessRun args, ShowError (lit ''Error'') msg]"
    using run_command_nonzero[of h w1 "create_cmd h r" False] assms(3) k(2) by auto
  have "create_profile h script w = (None, w')"
    using assms(1,2) r(2) by (simp add: create_profile_def out_truthy_def)
  then show ?thesis using r k by (simp add: spawned_append)
qed

lemma edit_failed:
  assumes "ProfileDialog (lit ''Edit Profile'') (Some (edit_initial_data (selected_profile vs))) script w
             = (dlg, w1)"
    and "result dlg = Some r"
    and "exits_nonzero h (spawned (trace w)) (edit_cmd h (selected_profile vs) r)"
  shows "\<exists>args msg w'. edit_profile h (Some vs) script w = (None, w') \<and> table w' = table w \<and>
           cmd_strs 0 (edit_cmd h (selected_profile vs) r) = Inr args \<and>
           trace w' = trace w1 @ [SubprocessRun args, ShowError (lit ''Error'') msg] \<and>
           spawned (trace w') = spawned (trace w) @ [args]"
proof -
  let ?p = "selected_profile vs"
  have k: "table w1 = table w" "spawned (trace w1) = spawned (trace w)"
    using wait_window_keeps[of script _ w dlg w1] assms(1) by (simp_all add: ProfileDialog_def)
  obtain args msg w' where r: "cmd_strs 0 (edit_cmd h ?p r) = Inr args"
      "run_command h (edit_cmd h ?p r) False w1 = (None, w')" "table w' = table w1"
      "trace w' = trace w1 @ [SubprocessRun args, ShowError (lit ''Error'') msg]"
    using run_command_nonzero[of h w1 "edit_cmd h ?p r" False] assms(3) k(2) by auto
  have "edit_profile h (Some vs) script w = (None, w')"
    using assms(1,2) r(2) by (simp add: edit_profile_def get_selected_profile_def out_truthy_def)
  then show ?thesis using r k by (simp add: spawned_append)
qed

lemma delete_failed:
  assumes "exits_nonzero h (spawned (trace w)) (delete_cmd h (selected_profile vs) yes)"
  shows "\<exists>args msg w'. delete_profile h (Some vs) (Some yes) w = (None, w') \<and> table w' = table w \<and>
           cmd_strs 0 (delete_cmd h (selected_profile vs) yes) = Inr args \<and>
           trace w' = trace w @ [AskYesNoCancel (lit ''Confirm Deletion'') (delete_prompt (selected_profile vs)),
                                 SubprocessRun args, ShowError (lit ''Error'') msg] \<and>
           spawned (trace w') = spawned (trace w) @ [args]"
proof -
  let ?p = "selected_profile vs"
  let ?w1 = "emit (AskYesNoCancel (lit ''Confirm Deletion'') (delete_prompt ?p)) w"
  have k: "table ?w1 = table w" "spawned (trace ?w1) = spawned (trace w)"
      "trace ?w1 = trace w @ [AskYesNoCancel (lit ''Confirm Deletion'') (delete_prompt ?p)]"
    by (simp_all add: emit_def spawned_append)
  obtain args msg w' where r: "cmd_strs 0 (delete_cmd h ?p yes) = Inr args"
      "run_command h (delete_cmd h ?p yes) False ?w1 = (None, w')" "table w' = table ?w1"
      "trace w' = trace ?w1 @ [SubprocessRun args, ShowError (lit ''Error'') msg]"
    using run_command_nonzero[of h ?w1 "delete_cmd h ?p yes" False] assms k(2) by auto
  have "delete_profile h (Some vs) (Some yes) w = (None, w')"
    using r(2) by (simp add: delete_profile_def get_selected_profile_def out_truthy_def Let_def)
  then show ?thesis using r k by (simp add: spawned_append)
qed

lemma run_command_first_spawn:
  "\<exists>es. trace (snd (run_command h (map TStr args) so w)) = trace w @ SubprocessRun args # es"
  by (simp add: run_command_def cmd_strs_TStr set_status_def emit_def Let_def
      split: run_result.splits)

section \<open>The properties\<close>

subsection \<open>C1\<close>

text \<open>
  Claim C1, as the code has it. When the list invocation fails (\<open>subprocess.run\<close>
  raises, the tool exits with a nonzero code, or \<open>json.loads\<close> rejects a non-empty
  stdout), \<open>refresh_profiles\<close> returns normally, one error box is shown after the one
  child process, and the table is empty: the rows were deleted before the tool was
  started, and none is inserted afterwards.
\<close>

theorem refresh_failure_clears:
  assumes "(\<exists>m. subprocess_run h (spawned (trace w)) (list_args h) = RunRaised m) \<or>
           (\<exists>rc out err. subprocess_run h (spawned (trace w)) (list_args h) = Completed rc out err \<and> rc \<noteq> 0) \<or>
           (\<exists>out err m. subprocess_run h (spawned (trace w)) (list_args h) = Completed 0 out err \<and>
                out \<noteq> [] \<and> json_loads h out = Inl m)"
  shows "\<exists>w' msg. refresh_profiles h w = (None, w') \<and> table w' = [] \<and>
           trace w' = trace w @ [SubprocessRun (list_args h), ShowError (lit ''Error'') msg]"
  using assms
proof (elim disjE exE conjE)
  fix m
  assume "subprocess_run h (spawned (trace w)) (list_args h) = RunRaised m"
  then show ?thesis
    by (simp add: refresh_profiles_def run_command_def list_cmd_strs cmd_strs_TStr set_status_def
        emit_def Let_def)
next
  fix rc out err
  assume "subprocess_run h (spawned (trace w)) (list_args h) = Completed rc out err" "rc \<noteq> 0"
  then show ?thesis
    by (simp add: refresh_profiles_def run_command_def list_cmd_strs cmd_strs_TStr set_status_def
        emit_def Let_def)
next
  fix out err m
  assume a: "subprocess_run h (spawned (trace w)) (list_args h) = Completed 0 out err"
    "out \<noteq> []" "json_loads h out = Inl m"
  obtain w3 where w3: "run_command h (list_cmd h) False
        ((set_status (lit ''Refreshing profiles...'') w)\<lparr>table := []\<rparr>) = (Some out, w3)"
      "table w3 = []" "trace w3 = trace w @ [SubprocessRun (list_args h)]"
    using run_list_ok[OF a(1)] by blast
  show ?thesis
    using a(3) w3(2,3) by (simp add: refresh_after_list[OF w3(1) a(2)] set_status_def emit_def)
qed

text \<open>
  Claim C1 as stated says the table keeps its prior state. It does not: a window showing
  one profile shows none after a refresh whose list invocation exits with code 1.
\<close>

theorem refresh_failure_prior_table_counterexample:
  "table world1 \<noteq> [] \<and>
   table (snd (refresh_profiles (demo_host (Completed 1 [] (lit ''no profiles file'')) (Inl [])) world1)) = []"
  by (simp add: refresh_profiles_def run_command_def list_cmd_def demo_host_def world1_def
      set_status_def emit_def Let_def)

text \<open>
  The parse failure case of C1 on the window showing one profile.
\<close>

theorem refresh_failure_clears_witness:
  "\<exists>w' msg. refresh_profiles (demo_host (Completed 0 (lit ''oops'') []) (Inl (lit ''Expecting value''))) world1 = (None, w') \<and>
     table w' = [] \<and>
     trace w' = trace world1 @ [SubprocessRun (list_args (demo_host (Completed 0 (lit ''oops'') []) (Inl (lit ''Expecting value'')))),
        ShowError (lit ''Error'') msg]"
proof -
  have "\<exists>out err m. subprocess_run (demo_host (Completed 0 (lit ''oops'') []) (Inl (lit ''Expecting value'')))
       (spawned (trace world1)) (list_args (demo_host (Completed 0 (lit ''oops'') []) (Inl (lit ''Expecting value''))))
        = Completed 0 out err \<and> out \<noteq> [] \<and>
      json_loads (demo_host (Completed 0 (lit ''oops'') []) (Inl (lit ''Expecting value''))) out = Inl m"
    by (simp add: demo_host_def lit_def)
  then show ?thesis
    using refresh_failure_clears [of "demo_host (Completed 0 (lit ''oops'') []) (Inl (lit ''Expecting value''))" world1]
    by blast
qed

subsection \<open>C2\<close>

text \<open>
  Claim C2. When the child process of a create, edit or delete operation exits with a
  nonzero code, the operation returns with the table it started with, shows the error box
  and starts no second process: the list operation is not run, so nothing is refreshed.
  The dialog of create and edit runs first (\<open>dlg\<close> and \<open>w1\<close> are what it leaves);
  delete asks for confirmation first.
\<close>

theorem failed_operation_keeps_table:
  "(ProfileDialog (lit ''Create New Profile'') None script w = (dlg, w1) \<longrightarrow> result dlg = Some r \<longrightarrow>
      exits_nonzero h (spawned (trace w)) (create_cmd h r) \<longrightarrow>
      (\<exists>args msg w'. create_profile h script w = (None, w') \<and> table w' = table w \<and>
         cmd_strs 0 (create_cmd h r) = Inr args \<and>
         trace w' = trace w1 @ [SubprocessRun args, ShowError (lit ''Error'') msg] \<and>
         spawned (trace w') = spawned (trace w) @ [args]))
   \<and> (ProfileDialog (lit ''Edit Profile'') (Some (edit_initial_data (selected_profile vs))) script w
         = (dlg, w1) \<longrightarrow> result dlg = Some r \<longrightarrow>
      exits_nonzero h (spawned (trace w)) (edit_cmd h (selected_profile vs) r) \<longrightarrow>
      (\<exists>args msg w'. edit_profile h (Some vs) script w = (None, w') \<and> table w' = table w \<and>
         cmd_strs 0 (edit_cmd h (selected_profile vs) r) = Inr args \<and>
         trace w' = trace w1 @ [SubprocessRun args, ShowError (lit ''Error'') msg] \<and>
         spawned (trace w') = spawned (trace w) @ [args]))
   \<and> (exits_nonzero h (spawned (trace w)) (delete_cmd h (selected_profile vs) yes) \<longrightarrow>
      (\<exists>args msg w'. delete_profile h (Some vs) (Some yes) w = (None, w') \<and> table w' = table w \<and>
         cmd_strs 0 (delete_cmd h (selected_profile vs) yes) = Inr args \<and>
         trace w' = trace w @ [AskYesNoCancel (lit ''Confirm Deletion'') (delete_prompt (selected_profile vs)),
                               SubprocessRun args, ShowError (lit ''Error'') msg] \<and>
         spawned (trace w') = spawned (trace w) @ [args]))"
  using create_failed[of script w dlg w1 r h] edit_failed[of vs script w dlg w1 r h]
    delete_failed[of h w vs yes]
  by blast

text \<open>
  C2 on the window showing one profile, with a tool that exits with code 1: creating
  "Work", renaming the selected profile to "B", and deleting it with its storage.
\<close>

theorem failed_operation_keeps_table_witness:
  "(\<exists>w'. create_profile tool_fails [EnterName (lit ''Work''), ClickOk] world1 = (None, w') \<and>
          table w' = table world1 \<and>
          spawned (trace w') =
            [[python_path tool_fails, script_path tool_fails, lit ''create'', lit ''Work'']])
   \<and> (\<exists>w'. edit_profile tool_fails (Some cells1) [EnterName (lit ''B''), ClickOk] world1 = (None, w') \<and>
          table w' = table world1 \<and>
          spawned (trace w') =
            [[python_path tool_fails, script_path tool_fails, lit ''edit'', lit ''p1'',
              lit ''--name'', lit ''B'']])
   \<and> (\<exists>w'. delete_profile tool_fails (Some cells1) (Some True) world1 = (None, w') \<and>
          table w' = table world1 \<and>
          spawned (trace w') =
            [[python_path tool_fails, script_path tool_fails, lit ''delete'', lit ''p1'',
              lit ''--remove-storage'']])"
proof -
  let ?c = "ProfileDialog (lit ''Create New Profile'') None [EnterName (lit ''Work''), ClickOk] world1"
  let ?rc = "\<lparr>r_name = lit ''Work'', r_storage_path = [], r_proxy = []\<rparr>"
  let ?e = "ProfileDialog (lit ''Edit Profile'') (Some (edit_initial_data (selected_profile cells1)))
              [EnterName (lit ''B''), ClickOk] world1"
  let ?re = "\<lparr>r_name = lit ''B'', r_storage_path = [], r_proxy = []\<rparr>"
  note ev = ProfileDialog_def setup_dialog_def initial_get_def edit_initial_data_def ok_clicked_def
    strip_def isspace_def lit_def cells1_def Let_def
  note ex = exits_nonzero_def tool_fails_def demo_host_def create_cmd_def edit_cmd_def delete_cmd_def
    cells1_def lit_def
  have c1: "?c = (fst ?c, snd ?c)" by simp
  have c2: "result (fst ?c) = Some ?rc" by (simp add: ev)
  have c3: "exits_nonzero tool_fails (spawned (trace world1)) (create_cmd tool_fails ?rc)"
    by (simp add: ex)
  have e1: "?e = (fst ?e, snd ?e)" by simp
  have e2: "result (fst ?e) = Some ?re" by (simp add: ev)
  have e3: "exits_nonzero tool_fails (spawned (trace world1))
              (edit_cmd tool_fails (selected_profile cells1) ?re)"
    by (simp add: ex)
  have d3: "exits_nonzero tool_fails (spawned (trace world1))
              (delete_cmd tool_fails (selected_profile cells1) True)"
    by (simp add: ex)
  have t0: "spawned (trace world1) = []" by (simp add: world1_def)
  note inst = failed_operation_keeps_table [where h = tool_fails and w = world1 and vs = cells1]
  obtain a1 m1 w1 where r1: "create_profile tool_fails [EnterName (lit ''Work''), ClickOk] world1 = (None, w1)"
      "table w1 = table world1" "cmd_strs 0 (create_cmd tool_fails ?rc) = Inr a1"
      "spawned (trace w1) = spawned (trace world1) @ [a1]"
    using inst [THEN conjunct1, rule_format, OF c1 c2 c3] by blast
  obtain a2 m2 w2 where r2: "edit_profile tool_fails (Some cells1) [EnterName (lit ''B''), ClickOk] world1 = (None, w2)"
      "table w2 = table world1" "cmd_strs 0 (edit_cmd tool_fails (selected_profile cells1) ?re) = Inr a2"
      "spawned (trace w2) = spawned (trace world1) @ [a2]"
    using inst [THEN conjunct2, THEN conjunct1, rule_format, OF e1 e2 e3] by blast
  obtain a3 m3 w3 where r3: "delete_profile tool_fails (Some cells1) (Some True) world1 = (None, w3)"
      "table w3 = table world1"
      "cmd_strs 0 (delete_cmd tool_fails (selected_profile cells1) True) = Inr a3"
      "spawned (trace w3) = spawned (trace world1) @ [a3]"
    using inst [THEN conjunct2, THEN conjunct2, rule_format, OF d3] by blast
  have "a1 = [python_path tool_fails, script_path tool_fails, lit ''create'', lit ''Work'']"
    using r1(3) by (simp add: create_cmd_def)
  moreover have "a2 = [python_path tool_fails, script_path tool_fails, lit ''edit'', lit ''p1'',
              lit ''--name'', lit ''B'']"
    using r2(3) by (auto simp: edit_cmd_def cells1_def lit_def)
  moreover have "a3 = [python_path tool_fails, script_path tool_fails, lit ''delete'', lit ''p1'',
              lit ''--remove-storage'']"
    using r3(3) by (auto simp: delete_cmd_def cells1_def)
  ultimately show ?thesis using r1(1,2,4) r2(1,2,4) r3(1,2,4) t0 by simp
qed

subsection \<open>C3\<close>

text \<open>
  Claim C3, as the code has it. \<open>open_profile\<close> on a selected profile starts exactly one
  worker thread, shows its acknowledgement, runs no child process itself and leaves table
  and status alone. The worker leaves the table alone too, and its result goes nowhere in
  the program, but the worker itself reports to the user: on exit code 0 with a stdout that
  is not blank it shows that stdout in an information box, and on a nonzero exit code it
  shows the error box of \<open>run_command\<close>.
\<close>

theorem open_profile_dispatch:
  "table (open_profile (Some vs) w) = table w \<and> status (open_profile (Some vs) w) = status w \<and>
   trace (open_profile (Some vs) w) =
     trace w @ [ThreadStart (selected_profile vs),
                ShowInfo (lit ''Opening Profile'')
                  (lit ''Opening profile '' @ quoted (str_tk (p_name (selected_profile vs)))
                     @ lit '' for manual login...'')] \<and>
   table (run_open h p w) = table w \<and>
   (p_id p = TStr i \<longrightarrow>
    subprocess_run h (spawned (trace w)) [python_path h, script_path h, lit ''open'', i]
      = Completed 0 out err \<longrightarrow>
    trace (run_open h p w) =
      trace w @ SubprocessRun [python_path h, script_path h, lit ''open'', i]
                # (if strip out \<noteq> [] then [ShowInfo (lit ''Command Output'') out] else [])) \<and>
   (p_id p = TStr i \<longrightarrow>
    subprocess_run h (spawned (trace w)) [python_path h, script_path h, lit ''open'', i]
      = Completed rc out err \<longrightarrow> rc \<noteq> 0 \<longrightarrow>
    trace (run_open h p w) =
      trace w @ [SubprocessRun [python_path h, script_path h, lit ''open'', i],
                 ShowError (lit ''Error'')
                   (lit ''Command failed:'' @ 10 # (if strip err = [] then strip out else strip err))])"
proof -
  have "table (run_open h p w) = table w"
    by (simp add: run_open_def run_command_table)
  then show ?thesis
    by (simp add: open_profile_def get_selected_profile_def emit_def)
      (simp add: run_open_def open_cmd_def run_command_def set_status_def emit_def Let_def)
qed

text \<open>
  Claim C3 as stated says no result of the worker is reported to the user. The worker of
  \<open>open_profile\<close> passes \<open>show_output=True\<close>: with a tool that prints "Profile opened"
  and exits with code 0, the user gets an information box with that text.
\<close>

theorem open_worker_reports_counterexample:
  "trace (run_open tool_opens (selected_profile cells1) world1) =
     [SubprocessRun [python_path tool_opens, script_path tool_opens, lit ''open'', lit ''p1''],
      ShowInfo (lit ''Command Output'') (lit ''Profile opened'')]"
  by (simp add: run_open_def open_cmd_def run_command_def tool_opens_def demo_host_def cells1_def
      world1_def set_status_def emit_def strip_def isspace_def lit_def Let_def)

text \<open>
  C3 on the window showing one profile.
\<close>

theorem open_profile_dispatch_witness:
  "trace (open_profile (Some cells1) world1) =
     [ThreadStart (selected_profile cells1),
      ShowInfo (lit ''Opening Profile'') (lit ''Opening profile 'A' for manual login...'')] \<and>
   table (open_profile (Some cells1) world1) = table world1 \<and>
   table (run_open tool_opens (selected_profile cells1) world1) = table world1 \<and>
   trace (run_open tool_opens (selected_profile cells1) world1) =
     [SubprocessRun [python_path tool_opens, script_path tool_opens, lit ''open'', lit ''p1''],
      ShowInfo (lit ''Command Output'') (lit ''Profile opened'')] \<and>
   trace (run_open tool_fails (selected_profile cells1) world1) =
     [SubprocessRun [python_path tool_fails, script_path tool_fails, lit ''open'', lit ''p1''],
      ShowError (lit ''Error'') (lit ''Command failed:'' @ 10 # lit ''profile store is locked'')]"
  using open_profile_dispatch [where vs = cells1 and w = world1 and h = tool_opens
      and p = "selected_profile cells1" and i = "lit ''p1''" and out = "lit ''Profile opened''"
      and err = "[]" and rc = 1]
    open_profile_dispatch [where vs = cells1 and w = world1 and h = tool_fails
      and p = "selected_profile cells1" and i = "lit ''p1''" and out = "[]"
      and err = "lit ''profile store is locked''" and rc = 1]
  by (simp add: tool_opens_def tool_fails_def demo_host_def cells1_def world1_def quoted_def
      strip_def isspace_def lit_def)

subsection \<open>C4\<close>

text \<open>
  Claim C4. When the name entry is blank after \<open>strip()\<close>, \<open>ok_clicked\<close> shows the error
  box and changes nothing else: the dialog keeps its fields, has no result and is not
  destroyed, so it goes on taking the user's next action, and no child process is started.
  A create operation whose dialog is then closed starts no process either.
\<close>

theorem ok_clicked_blank_name:
  assumes "strip (name_var d) = []"
  shows "ok_clicked d w = (d, emit (ShowError (lit ''Error'') (lit ''Profile name is required!'')) w) \<and>
         spawned (trace (snd (ok_clicked d w))) = spawned (trace w) \<and>
         table (snd (ok_clicked d w)) = table w \<and>
         (\<not> destroyed d \<longrightarrow>
            wait_window (ClickOk # rest) d w =
              wait_window rest d (emit (ShowError (lit ''Error'') (lit ''Profile name is required!'')) w)) \<and>
         create_profile h [EnterName (name_var d), ClickOk] w =
           (None, emit (ShowError (lit ''Error'') (lit ''Profile name is required!'')) w) \<and>
         edit_profile h (Some vs) [EnterName (name_var d), ClickOk] w =
           (None, emit (ShowError (lit ''Error'') (lit ''Profile name is required!'')) w)"
proof -
  have ok: "ok_clicked d' w = (d', emit (ShowError (lit ''Error'') (lit ''Profile name is required!'')) w)"
    if "name_var d' = name_var d" for d'
    using assms that by (simp add: ok_clicked_def)
  have "spawned (trace (snd (ok_clicked d w))) = spawned (trace w)"
    by (simp add: ok emit_def spawned_append)
  moreover have "table (snd (ok_clicked d w)) = table w"
    by (simp add: ok emit_def)
  moreover have "create_profile h [EnterName (name_var d), ClickOk] w =
           (None, emit (ShowError (lit ''Error'') (lit ''Profile name is required!'')) w)"
    by (simp add: create_profile_def ProfileDialog_def setup_dialog_def ok)
  moreover have "edit_profile h (Some vs) [EnterName (name_var d), ClickOk] w =
           (None, emit (ShowError (lit ''Error'') (lit ''Profile name is required!'')) w)"
    by (simp add: edit_profile_def get_selected_profile_def ProfileDialog_def setup_dialog_def ok)
  ultimately show ?thesis by (simp add: ok)
qed

text \<open>
  C4 for a name of three spaces typed into the create dialog.
\<close>

theorem ok_clicked_blank_name_witness:
  "ok_clicked (setup_dialog (lit ''Create New Profile'') None\<lparr>name_var := lit ''   ''\<rparr>) world1 =
     (setup_dialog (lit ''Create New Profile'') None\<lparr>name_var := lit ''   ''\<rparr>,
      emit (ShowError (lit ''Error'') (lit ''Profile name is required!'')) world1) \<and>
   spawned (trace (snd (ok_clicked (setup_dialog (lit ''Create New Profile'') None\<lparr>name_var := lit ''   ''\<rparr>)
      world1))) = [] \<and>
   create_profile tool_fails [EnterName (lit ''   ''), ClickOk] world1 =
     (None, emit (ShowError (lit ''Error'') (lit ''Profile name is required!'')) world1)"
proof -
  let ?d = "setup_dialog (lit ''Create New Profile'') None\<lparr>name_var := lit ''   ''\<rparr>"
  have h: "strip (name_var ?d) = []"
    by (simp add: strip_def isspace_def lit_def)
  have n: "name_var ?d = lit ''   ''" by simp
  have t: "spawned (trace world1) = []" by (simp add: world1_def)
  show ?thesis
    using ok_clicked_blank_name [OF h, of world1 "[]" tool_fails cells1] t unfolding n
    by (simp add: emit_def spawned_append)
qed

subsection \<open>C5\<close>

text \<open>
  Claim C5. \<open>delete_profile\<close> on a selected profile first asks the three-way question;
  everything else it does comes after it in the trace. On Cancel nothing follows, so no
  child process is started. On Yes the argument vector is the one of No with
  \<open>--remove-storage\<close> appended, and for a profile id that is a string the first process
  started is the delete operation with exactly that vector.
\<close>

theorem delete_confirmation:
  "delete_profile h (Some vs) None w =
     (None, emit (AskYesNoCancel (lit ''Confirm Deletion'') (delete_prompt (selected_profile vs))) w) \<and>
   spawned (trace (snd (delete_profile h (Some vs) None w))) = spawned (trace w) \<and>
   (\<exists>rest. trace (snd (delete_profile h (Some vs) response w)) =
      trace w @ AskYesNoCancel (lit ''Confirm Deletion'') (delete_prompt (selected_profile vs)) # rest) \<and>
   delete_cmd h p False = [TStr (python_path h), TStr (script_path h), TStr (lit ''delete''), p_id p] \<and>
   delete_cmd h p True = delete_cmd h p False @ [TStr (lit ''--remove-storage'')] \<and>
   (\<exists>rest. spawned (trace (snd (delete_profile h (Some (TStr i, v1, v2, v3)) (Some yes) w))) =
      spawned (trace w) @
        ([python_path h, script_path h, lit ''delete'', i]
           @ (if yes then [lit ''--remove-storage''] else [])) # rest)"
proof -
  let ?ask = "\<lambda>vs. AskYesNoCancel (lit ''Confirm Deletion'') (delete_prompt (selected_profile vs))"
  have cancel: "delete_profile h (Some vs) None w = (None, emit (?ask vs) w)" for vs
    by (simp add: delete_profile_def get_selected_profile_def Let_def)
  have ext: "\<exists>es. trace (snd (delete_profile h (Some vs) (Some yes) w)) =
               trace (snd (run_command h (delete_cmd h (selected_profile vs) yes) False (emit (?ask vs) w))) @ es"
    for vs yes
  proof -
    let ?r = "run_command h (delete_cmd h (selected_profile vs) yes) False (emit (?ask vs) w)"
    obtain out w2 where r: "?r = (out, w2)" by (cases ?r)
    show ?thesis
    proof (cases "out_truthy out")
      case True
      then show ?thesis
        using r refresh_profiles_trace[of h "emit (ShowInfo (lit ''Success'')
                 (lit ''Profile '' @ quoted (str_tk (p_name (selected_profile vs))) @ lit '' deleted ''
                   @ (if yes then lit ''and storage directory'' else lit ''but kept storage directory'')
                   @ lit ''!'')) w2"]
        by (auto simp: delete_profile_def get_selected_profile_def Let_def emit_def)
    next
      case False
      then show ?thesis
        using r by (simp add: delete_profile_def get_selected_profile_def Let_def)
    qed
  qed
  have asked: "\<exists>rest. trace (snd (delete_profile h (Some vs) response w)) = trace w @ ?ask vs # rest"
  proof (cases response)
    case None
    then show ?thesis by (simp add: cancel emit_def)
  next
    case (Some yes)
    obtain es where es: "trace (snd (delete_profile h (Some vs) (Some yes) w)) =
        trace (snd (run_command h (delete_cmd h (selected_profile vs) yes) False (emit (?ask vs) w))) @ es"
      using ext by blast
    obtain es' where "trace (snd (run_command h (delete_cmd h (selected_profile vs) yes) False (emit (?ask vs) w)))
        = trace (emit (?ask vs) w) @ es'"
      using run_command_trace by blast
    then show ?thesis using es Some by (simp add: emit_def)
  qed
  have argv: "\<exists>rest. spawned (trace (snd (delete_profile h (Some (TStr i, v1, v2, v3)) (Some yes) w))) =
      spawned (trace w) @
        ([python_path h, script_path h, lit ''delete'', i]
           @ (if yes then [lit ''--remove-storage''] else [])) # rest"
  proof -
    let ?vs = "(TStr i, v1, v2, v3)"
    let ?args = "[python_path h, script_path h, lit ''delete'', i]
           @ (if yes then [lit ''--remove-storage''] else [])"
    have c: "delete_cmd h (selected_profile ?vs) yes = map TStr ?args"
      by (simp add: delete_cmd_def)
    obtain es where es: "trace (snd (delete_profile h (Some ?vs) (Some yes) w)) =
        trace (snd (run_command h (map TStr ?args) False (emit (?ask ?vs) w))) @ es"
      using ext[of ?vs yes] unfolding c by blast
    obtain es' where "trace (snd (run_command h (map TStr ?args) False (emit (?ask ?vs) w)))
        = trace (emit (?ask ?vs) w) @ SubprocessRun ?args # es'"
      using run_command_first_spawn by blast
    then have "spawned (trace (snd (delete_profile h (Some ?vs) (Some yes) w))) =
        spawned (trace w) @ ?args # spawned (es' @ es)"
      using es by (simp add: emit_def spawned_append)
    then show ?thesis by blast
  qed
  have "spawned (trace (snd (delete_profile h (Some vs) None w))) = spawned (trace w)"
    by (simp add: cancel emit_def spawned_append)
  moreover have "delete_cmd h p False =
      [TStr (python_path h), TStr (script_path h), TStr (lit ''delete''), p_id p]"
    "delete_cmd h p True = delete_cmd h p False @ [TStr (lit ''--remove-storage'')]"
    by (simp_all add: delete_cmd_def)
  ultimately show ?thesis using cancel asked argv by blast
qed

text \<open>
  C5 on the window showing one profile, with a tool that exits with code 1.
\<close>

theorem delete_confirmation_witness:
  "delete_profile tool_fails (Some cells1) None world1 =
     (None, emit (AskYesNoCancel (lit ''Confirm Deletion'') (delete_prompt (selected_profile cells1))) world1) \<and>
   spawned (trace (snd (delete_profile tool_fails (Some cells1) None world1))) = [] \<and>
   (\<exists>rest. spawned (trace (snd (delete_profile tool_fails (Some cells1) (Some True) world1))) =
      [python_path tool_fails, script_path tool_fails, lit ''delete'', lit ''p1'', lit ''--remove-storage'']
        # rest) \<and>
   (\<exists>rest. spawned (trace (snd (delete_profile tool_fails (Some cells1) (Some False) world1))) =
      [python_path tool_fails, script_path tool_fails, lit ''delete'', lit ''p1''] # rest)"
  using delete_confirmation [where h = tool_fails and vs = cells1 and w = world1 and i = "lit ''p1''"
      and ?v1.0 = "TStr (lit ''A'')" and ?v2.0 = "TStr (lit ''default'')" and ?v3.0 = "TStr (lit ''yes'')"
      and yes = True]
    delete_confirmation [where h = tool_fails and vs = cells1 and w = world1 and i = "lit ''p1''"
      and ?v1.0 = "TStr (lit ''A'')" and ?v2.0 = "TStr (lit ''default'')" and ?v3.0 = "TStr (lit ''yes'')"
      and yes = False]
  by (simp add: cells1_def world1_def)

subsection \<open>C6\<close>

text \<open>
  Claim C6. When the list operation succeeds and its stdout parses to an array of
  objects that have the keys \<open>id\<close>, \<open>name\<close> and \<open>storage_path\<close>, the table gets one row per
  object, in order; the proxy column of a row is "yes" exactly when the object has a
  \<open>proxy_host\<close> whose value is truthy, and "no" exactly when it has not; the other three
  columns are the values of the three keys.
\<close>

theorem refresh_proxy_column:
  assumes "subprocess_run h (spawned (trace w)) (list_args h) = Completed 0 out err"
    and "out \<noteq> []"
    and "json_loads h out = Inr (JArr (map JObj ds))"
    and "list_all has_keys ds"
  shows "\<exists>w'. refresh_profiles h w = (None, w') \<and> length (table w') = length ds \<and>
           (\<forall>i < length ds.
              (col_proxy (table w' ! i) = lit ''yes'' \<longleftrightarrow>
                 (\<exists>v. dict_get (ds ! i) (lit ''proxy_host'') = Some v \<and> truthy v)) \<and>
              (col_proxy (table w' ! i) = lit ''no'' \<longleftrightarrow>
                 \<not> (\<exists>v. dict_get (ds ! i) (lit ''proxy_host'') = Some v \<and> truthy v)) \<and>
              dict_get (ds ! i) (lit ''id'') = Some (col_id (table w' ! i)) \<and>
              dict_get (ds ! i) (lit ''name'') = Some (col_name (table w' ! i)) \<and>
              dict_get (ds ! i) (lit ''storage_path'') = Some (col_storage_path (table w' ! i)))"
proof -
  obtain w3 where w3: "run_command h (list_cmd h) False
        ((set_status (lit ''Refreshing profiles...'') w)\<lparr>table := []\<rparr>) = (Some out, w3)"
      "table w3 = []"
    using run_list_ok[OF assms(1)] by blast
  obtain rows where rows: "map profile_row ds = map Inr rows"
    using all_has_keys_rows[OF assms(4)] by blast
  have len: "length rows = length ds"
    using rows by (metis length_map)
  have nth: "profile_row (ds ! i) = Inr (rows ! i)" if "i < length ds" for i
  proof -
    have "map profile_row ds ! i = map Inr rows ! i" using rows by simp
    then show ?thesis using that len by simp
  qed
  have yn: "lit ''yes'' \<noteq> lit ''no''" by (simp add: lit_def)
  have "refresh_profiles h w =
          (None, set_status (lit ''Loaded '' @ str_nat (length ds) @ lit '' profiles'')
                   (w3\<lparr>table := table w3 @ rows\<rparr>))"
    using assms(3) by (simp add: refresh_after_list[OF w3(1) assms(2)] insert_profiles_rows[OF rows])
  moreover have "table (set_status (lit ''Loaded '' @ str_nat (length ds) @ lit '' profiles'')
                   (w3\<lparr>table := table w3 @ rows\<rparr>)) = rows"
    using w3(2) by (simp add: set_status_def)
  ultimately show ?thesis
    using len yn has_keys_row_cols[OF nth] by auto
qed

text \<open>
  The example of C6: the one object with \<open>proxy_host\<close> "1.2.3.4" gives one row, with proxy
  column "yes".
\<close>

theorem refresh_proxy_column_witness:
  "\<exists>w'. refresh_profiles (demo_host (Completed 0 list_output1 []) (Inr (JArr [JObj profile1]))) world0
          = (None, w') \<and>
        length (table w') = 1 \<and> col_proxy (table w' ! 0) = lit ''yes'' \<and>
        col_id (table w' ! 0) = JStr (lit ''p1'')"
proof -
  let ?h = "demo_host (Completed 0 list_output1 []) (Inr (JArr [JObj profile1]))"
  have h1: "subprocess_run ?h (spawned (trace world0)) (list_args ?h) = Completed 0 list_output1 []"
    by (simp add: demo_host_def)
  have h2: "list_output1 \<noteq> []" by (simp add: list_output1_def lit_def)
  have h3: "json_loads ?h list_output1 = Inr (JArr (map JObj [profile1]))"
    by (simp add: demo_host_def)
  have h4: "list_all has_keys [profile1]"
    by (simp add: has_keys_def profile1_def dict_get_def lit_def)
  have t: "\<exists>v. dict_get ([profile1] ! 0) (lit ''proxy_host'') = Some v \<and> truthy v"
    by (simp add: profile1_def dict_get_def lit_def)
  have i: "dict_get ([profile1] ! 0) (lit ''id'') = Some (JStr (lit ''p1''))"
    by (simp add: profile1_def dict_get_def lit_def)
  obtain w' where r: "refresh_profiles ?h world0 = (None, w')" "length (table w') = length [profile1]"
     "\<forall>i < length [profile1].
              (col_proxy (table w' ! i) = lit ''yes'' \<longleftrightarrow>
                 (\<exists>v. dict_get ([profile1] ! i) (lit ''proxy_host'') = Some v \<and> truthy v)) \<and>
              (col_proxy (table w' ! i) = lit ''no'' \<longleftrightarrow>
                 \<not> (\<exists>v. dict_get ([profile1] ! i) (lit ''proxy_host'') = Some v \<and> truthy v)) \<and>
              dict_get ([profile1] ! i) (lit ''id'') = Some (col_id (table w' ! i)) \<and>
              dict_get ([profile1] ! i) (lit ''name'') = Some (col_name (table w' ! i)) \<and>
              dict_get ([profile1] ! i) (lit ''storage_path'') = Some (col_storage_path (table w' ! i))"
    using refresh_proxy_column [OF h1 h2 h3 h4] by blast
  from r(3) have "col_proxy (table w' ! 0) = lit ''yes''" "dict_get ([profile1] ! 0) (lit ''id'') = Some (col_id (table w' ! 0))"
    using t by auto
  then show ?thesis using r(1,2) i by simp
qed

subsection \<open>C7\<close>

text \<open>
  Claim C7. The dialog that \<open>edit_profile\<close> opens starts with an empty proxy entry, and
  its initial state does not depend on the proxy cell of the selected row: two profiles
  that differ in nothing else open the same dialog, and the whole edit operation does the
  same for both.
\<close>

theorem edit_dialog_proxy_blank:
  "proxy_var (setup_dialog (lit ''Edit Profile'') (Some (edit_initial_data p))) = [] \<and>
   setup_dialog (lit ''Edit Profile'') (Some (edit_initial_data (p\<lparr>p_proxy := z\<rparr>))) =
     setup_dialog (lit ''Edit Profile'') (Some (edit_initial_data p)) \<and>
   edit_profile h (Some (v0, v1, v2, x)) script w = edit_profile h (Some (v0, v1, v2, y)) script w"
proof -
  have "proxy_var (setup_dialog (lit ''Edit Profile'') (Some (edit_initial_data p))) = []"
    by (simp add: setup_dialog_def initial_get_def edit_initial_data_def lit_def)
  moreover have "edit_initial_data (p\<lparr>p_proxy := z\<rparr>) = edit_initial_data p"
    by (simp add: edit_initial_data_def)
  moreover have "edit_profile h (Some (v0, v1, v2, x)) script w =
      edit_profile h (Some (v0, v1, v2, y)) script w"
    by (simp add: edit_profile_def get_selected_profile_def edit_initial_data_def edit_cmd_def
        split: prod.splits option.splits)
  ultimately show ?thesis by simp
qed

text \<open>
  C7 for the selected row of the window showing one profile, against the same row with
  proxy cell "no".
\<close>

theorem edit_dialog_proxy_blank_witness:
  "proxy_var (setup_dialog (lit ''Edit Profile'') (Some (edit_initial_data (selected_profile cells1)))) = [] \<and>
   name_var (setup_dialog (lit ''Edit Profile'') (Some (edit_initial_data (selected_profile cells1)))) = lit ''A'' \<and>
   setup_dialog (lit ''Edit Profile'')
       (Some (edit_initial_data (selected_profile cells1\<lparr>p_proxy := TStr (lit ''no'')\<rparr>))) =
     setup_dialog (lit ''Edit Profile'') (Some (edit_initial_data (selected_profile cells1))) \<and>
   edit_profile tool_fails (Some (TStr (lit ''p1''), TStr (lit ''A''), TStr (lit ''default''), TStr (lit ''yes'')))
       [EnterProxy (lit ''h:1:u:p''), ClickOk] world1 =
     edit_profile tool_fails (Some (TStr (lit ''p1''), TStr (lit ''A''), TStr (lit ''default''), TStr (lit ''no'')))
       [EnterProxy (lit ''h:1:u:p''), ClickOk] world1"
proof -
  have "name_var (setup_dialog (lit ''Edit Profile'') (Some (edit_initial_data (selected_profile cells1)))) = lit ''A''"
    by (simp add: setup_dialog_def initial_get_def edit_initial_data_def cells1_def lit_def)
  then show ?thesis
    using edit_dialog_proxy_blank [where p = "selected_profile cells1" and z = "TStr (lit ''no'')"
        and x = "TStr (lit ''yes'')"
        and h = tool_fails and ?v0.0 = "TStr (lit ''p1'')" and ?v1.0 = "TStr (lit ''A'')"
        and ?v2.0 = "TStr (lit ''default'')" and y = "TStr (lit ''no'')"
        and script = "[EnterProxy (lit ''h:1:u:p''), ClickOk]" and w = world1]
    by blast
qed

subsection \<open>C8\<close>

text \<open>
  Claim C8. For an argument vector of strings, \<open>run_command\<close> on a nonzero exit code
  shows the error box with the stripped stderr, or with the stripped stdout when the
  stripped stderr is empty, and returns \<open>None\<close>; when \<open>subprocess.run\<close> raises it shows
  the error box with the text of the exception and returns \<open>None\<close> as well; on exit code 0
  it returns the captured stdout. In the first two cases the table is untouched and the
  status is back to "Ready".
\<close>

theorem run_command_outcome:
  "(subprocess_run h (spawned (trace w)) args = Completed rc out err \<longrightarrow> rc \<noteq> 0 \<longrightarrow>
      (\<exists>w'. run_command h (map TStr args) so w = (None, w') \<and> table w' = table w \<and>
         status w' = lit ''Ready'' \<and>
         trace w' = trace w @ [SubprocessRun args,
           ShowError (lit ''Error'')
             (lit ''Command failed:'' @ 10 # (if strip err = [] then strip out else strip err))]))
   \<and> (subprocess_run h (spawned (trace w)) args = RunRaised m \<longrightarrow>
      (\<exists>w'. run_command h (map TStr args) so w = (None, w') \<and> table w' = table w \<and>
         status w' = lit ''Ready'' \<and>
         trace w' = trace w @ [SubprocessRun args,
           ShowError (lit ''Error'') (lit ''Failed to run command: '' @ m)]))
   \<and> (subprocess_run h (spawned (trace w)) args = Completed 0 out err \<longrightarrow>
      fst (run_command h (map TStr args) so w) = Some out)"
  by (simp add: run_command_def cmd_strs_TStr set_status_def emit_def Let_def)

text \<open>
  C8 on four tools: one that fails with text on stderr, one that fails with text on
  stdout only, one that cannot be started, and one that succeeds.
\<close>

theorem run_command_outcome_witness:
  "(\<exists>w'. run_command (demo_host (Completed 2 (lit ''usage'') (lit '' no such profile '')) (Inl []))
            (map TStr [lit ''tool'', lit ''open'', lit ''p9'']) False world1 = (None, w') \<and>
          table w' = table world1 \<and> status w' = lit ''Ready'' \<and>
          trace w' = [SubprocessRun [lit ''tool'', lit ''open'', lit ''p9''],
                      ShowError (lit ''Error'') (lit ''Command failed:'' @ 10 # lit ''no such profile'')])
   \<and> (\<exists>w'. run_command (demo_host (Completed 2 (lit ''usage '') []) (Inl []))
            (map TStr [lit ''tool'', lit ''open'', lit ''p9'']) False world1 = (None, w') \<and>
          table w' = table world1 \<and> status w' = lit ''Ready'' \<and>
          trace w' = [SubprocessRun [lit ''tool'', lit ''open'', lit ''p9''],
                      ShowError (lit ''Error'') (lit ''Command failed:'' @ 10 # lit ''usage'')])
   \<and> (\<exists>w'. run_command (demo_host (RunRaised (lit ''No such file'')) (Inl []))
            (map TStr [lit ''tool'', lit ''open'', lit ''p9'']) False world1 = (None, w') \<and>
          table w' = table world1 \<and> status w' = lit ''Ready'' \<and>
          trace w' = [SubprocessRun [lit ''tool'', lit ''open'', lit ''p9''],
                      ShowError (lit ''Error'') (lit ''Failed to run command: No such file'')])
   \<and> fst (run_command (demo_host (Completed 0 (lit ''done'') (lit ''warning'')) (Inl []))
            (map TStr [lit ''tool'', lit ''open'', lit ''p9'']) False world1) = Some (lit ''done'')"
  using run_command_outcome [where h = "demo_host (Completed 2 (lit ''usage'') (lit '' no such profile '')) (Inl [])"
      and w = world1 and args = "[lit ''tool'', lit ''open'', lit ''p9'']" and rc = 2
      and out = "lit ''usage''" and err = "lit '' no such profile ''" and so = False]
    run_command_outcome [where h = "demo_host (Completed 2 (lit ''usage '') []) (Inl [])"
      and w = world1 and args = "[lit ''tool'', lit ''open'', lit ''p9'']" and rc = 2
      and out = "lit ''usage ''" and err = "[]" and so = False]
    run_command_outcome [where h = "demo_host (RunRaised (lit ''No such file'')) (Inl [])"
      and w = world1 and args = "[lit ''tool'', lit ''open'', lit ''p9'']"
      and m = "lit ''No such file''" and so = False]
    run_command_outcome [where h = "demo_host (Completed 0 (lit ''done'') (lit ''warning'')) (Inl [])"
      and w = world1 and args = "[lit ''tool'', lit ''open'', lit ''p9'']"
      and out = "lit ''done''" and err = "lit ''warning''" and so = False]
  by (simp add: demo_host_def world1_def strip_def isspace_def lit_def)

subsection \<open>C9\<close>

text \<open>
  Claim C9. When the list operation exits with code 0 and its stdout parses to the empty
  array, \<open>refresh_profiles\<close> leaves an empty table and the status "Loaded 0 profiles",
  having run one child process and shown no message box. (The empty string is not JSON, so
  a stdout that parses is not empty.)
\<close>

theorem refresh_empty_array:
  assumes "subprocess_run h (spawned (trace w)) (list_args h) = Completed 0 out err"
    and "out \<noteq> []"
    and "json_loads h out = Inr (JArr [])"
  shows "\<exists>w'. refresh_profiles h w = (None, w') \<and> table w' = [] \<and>
              status w' = lit ''Loaded 0 profiles'' \<and>
              trace w' = trace w @ [SubprocessRun (list_args h)]"
proof -
  obtain w3 where w3: "run_command h (list_cmd h) False
        ((set_status (lit ''Refreshing profiles...'') w)\<lparr>table := []\<rparr>) = (Some out, w3)"
      "table w3 = []" "trace w3 = trace w @ [SubprocessRun (list_args h)]"
    using run_list_ok[OF assms(1)] by blast
  have "str_nat 0 = lit ''0''" by (simp add: str_nat.simps lit_def)
  then have "lit ''Loaded '' @ str_nat 0 @ lit '' profiles'' = lit ''Loaded 0 profiles''"
    by (simp add: lit_def)
  then show ?thesis
    using assms(3) w3(2,3) by (simp add: refresh_after_list[OF w3(1) assms(2)] set_status_def)
qed

text \<open>
  C9 on the window showing one profile, with a tool that prints \<open>[]\<close>.
\<close>

theorem refresh_empty_array_witness:
  "\<exists>w'. refresh_profiles (demo_host (Completed 0 (lit ''[]'') []) (Inr (JArr []))) world1 = (None, w') \<and>
        table w' = [] \<and> status w' = lit ''Loaded 0 profiles'' \<and>
        trace w' = [SubprocessRun (list_args (demo_host (Completed 0 (lit ''[]'') []) (Inr (JArr []))))]"
  using refresh_empty_array [of "demo_host (Completed 0 (lit ''[]'') []) (Inr (JArr []))" world1 "lit ''[]''" "[]"]
  by (simp add: demo_host_def world1_def lit_def)

subsection \<open>C10\<close>

text \<open>
  Claim C10. When the list output parses to an array in which the objects \<open>pre\<close> have
  the three keys and the next object \<open>d\<close> lacks one of them, \<open>refresh_profiles\<close> is left
  by a \<open>KeyError\<close> for a key that \<open>d\<close> lacks; no error box is shown, the status stays
  "Ready", and the table holds exactly the rows of \<open>pre\<close>.
\<close>

theorem refresh_key_error:
  assumes "subprocess_run h (spawned (trace w)) (list_args h) = Completed 0 out err"
    and "out \<noteq> []"
    and "json_loads h out = Inr (JArr (map JObj pre @ JObj d # post))"
    and "list_all has_keys pre"
    and "\<not> has_keys d"
  shows "\<exists>k rows w'. k \<in> {lit ''id'', lit ''name'', lit ''storage_path''} \<and> dict_get d k = None \<and>
           map profile_row pre = map Inr rows \<and>
           refresh_profiles h w = (Some (KeyError k), w') \<and>
           table w' = rows \<and> status w' = lit ''Ready'' \<and>
           trace w' = trace w @ [SubprocessRun (list_args h)]"
proof -
  obtain w3 where w3: "run_command h (list_cmd h) False
        ((set_status (lit ''Refreshing profiles...'') w)\<lparr>table := []\<rparr>) = (Some out, w3)"
      "table w3 = []" "status w3 = lit ''Ready''" "trace w3 = trace w @ [SubprocessRun (list_args h)]"
    using run_list_ok[OF assms(1)] by blast
  obtain rows where rows: "map profile_row pre = map Inr rows"
    using all_has_keys_rows[OF assms(4)] by blast
  obtain k where k: "k \<in> {lit ''id'', lit ''name'', lit ''storage_path''}" "dict_get d k = None"
      "profile_row d = Inl (KeyError k)"
    using no_keys_row[OF assms(5)] by blast
  have "refresh_profiles h w = (Some (KeyError k), w3\<lparr>table := table w3 @ rows\<rparr>)"
    using assms(3) by (simp add: refresh_after_list[OF w3(1) assms(2)] insert_profiles_stop[OF rows k(3)])
  with rows k w3(2-4) show ?thesis by simp
qed

text \<open>
  C10 on an array of three objects whose second one has no \<open>name\<close>: the table keeps the
  row of the first.
\<close>

theorem refresh_key_error_witness:
  "\<exists>w'. refresh_profiles
           (demo_host (Completed 0 (lit ''[...]'') [])
              (Inr (JArr [JObj profile1, JObj profile2, JObj profile1]))) world0
         = (Some (KeyError (lit ''name'')), w') \<and>
        table w' = table world1 \<and> status w' = lit ''Ready''"
proof -
  let ?h = "demo_host (Completed 0 (lit ''[...]'') [])
              (Inr (JArr [JObj profile1, JObj profile2, JObj profile1]))"
  have h1: "subprocess_run ?h (spawned (trace world0)) (list_args ?h) = Completed 0 (lit ''[...]'') []"
    by (simp add: demo_host_def)
  have h2: "lit ''[...]'' \<noteq> []" by (simp add: lit_def)
  have h3: "json_loads ?h (lit ''[...]'') = Inr (JArr (map JObj [profile1] @ JObj profile2 # [JObj profile1]))"
    by (simp add: demo_host_def)
  have h4: "list_all has_keys [profile1]"
    by (simp add: has_keys_def profile1_def dict_get_def lit_def)
  have h5: "\<not> has_keys profile2"
    by (simp add: has_keys_def profile2_def dict_get_def lit_def)
  obtain k rows w' where r: "k \<in> {lit ''id'', lit ''name'', lit ''storage_path''}"
      "dict_get profile2 k = None" "map profile_row [profile1] = map Inr rows"
      "refresh_profiles ?h world0 = (Some (KeyError k), w')" "table w' = rows"
      "status w' = lit ''Ready''"
    using refresh_key_error [OF h1 h2 h3 h4 h5] by blast
  have "k = lit ''name''"
    using r(1,2) by (auto simp: profile2_def dict_get_def lit_def)
  moreover have "rows = table world1"
    using r(3) by (auto simp: profile_row_def profile1_def dict_get_def lit_def world1_def Let_def)
  ultimately show ?thesis using r(4,5,6) by simp
qed

end
